theory Spec2Isabelle
  imports Complex_Main
begin

section \<open>External collaborators\<close>

text \<open>
  \<^verbatim>\<open>Polygon3.js\<close> requires \<^verbatim>\<open>./Vector3\<close>, \<^verbatim>\<open>./Vertex3\<close>, \<^verbatim>\<open>./Matrix4\<close>,
  \<^verbatim>\<open>./Plane\<close> and \<^verbatim>\<open>../constants\<close>. JavaScript numbers are taken as real
  numbers: no rounding, no NaN, no infinities.
\<close>

text \<open>
  Modelled from the spec: the vector algebra (\<^verbatim>\<open>./Vector3\<close>) is an external leaf
  primitive supplying sums, differences, scaling, dot and cross products, the Euclidean
  length and the component-wise minimum and maximum of points in 3-space.
\<close>

datatype Vector3D = Vector3D (vx: real) (vy: real) (vz: real)

definition plus3 :: "Vector3D \<Rightarrow> Vector3D \<Rightarrow> Vector3D" where
  "plus3 a b = Vector3D (vx a + vx b) (vy a + vy b) (vz a + vz b)"

definition minus3 :: "Vector3D \<Rightarrow> Vector3D \<Rightarrow> Vector3D" where
  "minus3 a b = Vector3D (vx a - vx b) (vy a - vy b) (vz a - vz b)"

definition times3 :: "Vector3D \<Rightarrow> real \<Rightarrow> Vector3D" where
  "times3 a k = Vector3D (vx a * k) (vy a * k) (vz a * k)"

definition negated :: "Vector3D \<Rightarrow> Vector3D" where
  "negated a = Vector3D (- vx a) (- vy a) (- vz a)"

definition dot :: "Vector3D \<Rightarrow> Vector3D \<Rightarrow> real" where
  "dot a b = vx a * vx b + vy a * vy b + vz a * vz b"

definition cross :: "Vector3D \<Rightarrow> Vector3D \<Rightarrow> Vector3D" where
  "cross a b = Vector3D (vy a * vz b - vz a * vy b)
                        (vz a * vx b - vx a * vz b)
                        (vx a * vy b - vy a * vx b)"

definition length3 :: "Vector3D \<Rightarrow> real" where
  "length3 a = sqrt (dot a a)"

definition min3 :: "Vector3D \<Rightarrow> Vector3D \<Rightarrow> Vector3D" where
  "min3 a b = Vector3D (min (vx a) (vx b)) (min (vy a) (vy b)) (min (vz a) (vz b))"

definition max3 :: "Vector3D \<Rightarrow> Vector3D \<Rightarrow> Vector3D" where
  "max3 a b = Vector3D (max (vx a) (vx b)) (max (vy a) (vy b)) (max (vz a) (vz b))"

text \<open>
  Modelled from the spec: a vertex (\<^verbatim>\<open>./Vertex3\<close>) is a position in 3-space, with an
  attached normal if any; its flip negates the attached normal and keeps the position.
\<close>

record vertex =
  pos :: Vector3D
  vnormal :: "Vector3D option"

definition Vertex :: "Vector3D \<Rightarrow> vertex" where
  "Vertex p = \<lparr>pos = p, vnormal = None\<rparr>"

definition Vertex_flipped :: "vertex \<Rightarrow> vertex" where
  "Vertex_flipped v = v\<lparr>vnormal := map_option negated (vnormal v)\<rparr>"

text \<open>
  Modelled from the spec: a plane (\<^verbatim>\<open>./Plane\<close>) is a normal and a scalar offset; its
  flip negates both.
\<close>

record plane =
  normal :: Vector3D
  w :: real

definition Plane_flipped :: "plane \<Rightarrow> plane" where
  "Plane_flipped pl = \<lparr>normal = negated (normal pl), w = - w pl\<rparr>"

text \<open>
  The rest of what \<^verbatim>\<open>Polygon3.js\<close> imports is a parameter of the model: the constants
  \<^verbatim>\<open>_CSGDEBUG\<close> and \<^verbatim>\<open>EPS\<close> of \<^verbatim>\<open>../constants\<close>, the factory
  \<^verbatim>\<open>Plane.fromVector3Ds\<close>, and, for a matrix type \<open>'m\<close>, \<^verbatim>\<open>Vertex.transform\<close>,
  \<^verbatim>\<open>Plane.transform\<close>, \<^verbatim>\<open>Matrix4x4.isMirroring\<close> and \<^verbatim>\<open>Matrix4x4.translation\<close>.
\<close>

record 'm externals =
  CSGDEBUG :: bool
  EPS :: real
  fromVector3Ds :: "Vector3D \<Rightarrow> Vector3D \<Rightarrow> Vector3D \<Rightarrow> plane"
  Vertex_transform :: "'m \<Rightarrow> vertex \<Rightarrow> vertex"
  Plane_transform :: "'m \<Rightarrow> plane \<Rightarrow> plane"
  isMirroring :: "'m \<Rightarrow> bool"
  translation :: "Vector3D \<Rightarrow> 'm"

section \<open>Convexity validation\<close>

definition isConvexPoint :: "Vector3D \<Rightarrow> Vector3D \<Rightarrow> Vector3D \<Rightarrow> Vector3D \<Rightarrow> bool" where
  "isConvexPoint prevpoint point nextpoint nrm =
     (let crossproduct = cross (minus3 point prevpoint) (minus3 nextpoint point);
          crossdotnormal = dot crossproduct nrm
      in crossdotnormal \<ge> 0)"

definition isStrictlyConvexPoint ::
  "'m externals \<Rightarrow> Vector3D \<Rightarrow> Vector3D \<Rightarrow> Vector3D \<Rightarrow> Vector3D \<Rightarrow> bool" where
  "isStrictlyConvexPoint E prevpoint point nextpoint nrm =
     (let crossproduct = cross (minus3 point prevpoint) (minus3 nextpoint point);
          crossdotnormal = dot crossproduct nrm
      in crossdotnormal \<ge> EPS E)"

text \<open>The \<^verbatim>\<open>for\<close> loop of \<^verbatim>\<open>verticesConvex\<close>, over the vertices still to visit.\<close>

fun convexLoop :: "Vector3D \<Rightarrow> Vector3D \<Rightarrow> vertex list \<Rightarrow> Vector3D \<Rightarrow> bool" where
  "convexLoop prevprevpos prevpos [] planenormal = True"
| "convexLoop prevprevpos prevpos (v # vs) planenormal =
     (if \<not> isConvexPoint prevprevpos prevpos (pos v) planenormal then False
      else convexLoop prevpos (pos v) vs planenormal)"

definition verticesConvex :: "vertex list \<Rightarrow> Vector3D \<Rightarrow> bool" where
  "verticesConvex vs planenormal =
     (let numvertices = length vs in
      if numvertices > 2
      then convexLoop (pos (vs ! (numvertices - 2))) (pos (vs ! (numvertices - 1))) vs planenormal
      else True)"

section \<open>Errors and argument values\<close>

text \<open>
  \<^verbatim>\<open>NotConvex\<close> is \<^verbatim>\<open>throw new Error('Not convex!')\<close>, \<^verbatim>\<open>InvalidColor\<close> is either
  of the two arity errors of \<^verbatim>\<open>Polygon3.Shared\<close>, and \<^verbatim>\<open>TypeError\<close> is what the
  runtime raises on reading a property of \<^verbatim>\<open>undefined\<close> or calling a method a value
  does not have.
\<close>

datatype error = NotConvex | InvalidColor | TypeError

text \<open>A value handed to \<^verbatim>\<open>Shared.fromColor\<close>: a number or an array.\<close>

datatype jsval = Num real | Arr "jsval list"

section \<open>Polygon3.Shared\<close>

record shared =
  color :: "jsval list option"

definition Shared :: "jsval list option \<Rightarrow> error + shared" where
  "Shared col =
     (case col of
        None \<Rightarrow> Inr \<lparr>color = None\<rparr>
      | Some c \<Rightarrow> if length c \<noteq> 4 then Inl InvalidColor else Inr \<lparr>color = Some c\<rparr>)"

definition defaultShared :: shared where
  "defaultShared = \<lparr>color = None\<rparr>"

text \<open>The loop of \<^verbatim>\<open>fromColor\<close> that pushes every argument onto \<^verbatim>\<open>color\<close>.\<close>

fun pushArguments :: "jsval list \<Rightarrow> jsval list \<Rightarrow> jsval list" where
  "pushArguments col [] = col"
| "pushArguments col (a # as) = pushArguments (col @ [a]) as"

definition fromColor :: "jsval list \<Rightarrow> error + shared" where
  "fromColor arguments =
     (case (if length arguments = 1
            then (case arguments ! 0 of Arr xs \<Rightarrow> Inr xs | Num r \<Rightarrow> Inl TypeError)
            else Inr (pushArguments [] arguments)) of
        Inl e \<Rightarrow> Inl e
      | Inr col \<Rightarrow>
          if length col = 3 then Shared (Some (col @ [Num 1]))
          else if length col \<noteq> 4 then Inl InvalidColor
          else Shared (Some col))"

section \<open>Polygon3\<close>

record polygon3 =
  vertices :: "vertex list"
  shared :: shared
  plane :: plane
  cachedBoundingBox :: "(Vector3D \<times> Vector3D) option"
  cachedBoundingSphere :: "(Vector3D \<times> real) option"

definition checkIfConvex :: "polygon3 \<Rightarrow> bool" where
  "checkIfConvex this = verticesConvex (vertices this) (normal (plane this))"

text \<open>
  The constructor. The second argument is \<open>None\<close> when \<^verbatim>\<open>shared\<close> is missing or
  falsy; the third is \<open>None\<close> when fewer than three arguments are passed
  (\<^verbatim>\<open>arguments.length < 3\<close>). Reading \<^verbatim>\<open>vertices[k].pos\<close> beyond the end of the
  array raises a \<^verbatim>\<open>TypeError\<close>.
\<close>

definition Polygon3 ::
  "'m externals \<Rightarrow> vertex list \<Rightarrow> shared option \<Rightarrow> plane option \<Rightarrow> error + polygon3" where
  "Polygon3 E vs sh pl =
     (let shared' = (case sh of None \<Rightarrow> defaultShared | Some s \<Rightarrow> s) in
      case (case pl of
              Some p \<Rightarrow> Inr p
            | None \<Rightarrow>
                (case vs of
                   v0 # v1 # v2 # rest \<Rightarrow> Inr (fromVector3Ds E (pos v0) (pos v1) (pos v2))
                 | _ \<Rightarrow> Inl TypeError)) of
        Inl e \<Rightarrow> Inl e
      | Inr plane' \<Rightarrow>
          (let this = \<lparr>vertices = vs, shared = shared', plane = plane',
                       cachedBoundingBox = None, cachedBoundingSphere = None\<rparr>
           in if CSGDEBUG E
              then (if \<not> checkIfConvex this then Inl NotConvex else Inr this)
              else Inr this))"

text \<open>\<^verbatim>\<open>setColor\<close> assigns \<^verbatim>\<open>this.shared\<close> and returns \<^verbatim>\<open>this\<close>: the result is the receiver
  after the call.\<close>

definition setColor :: "jsval list \<Rightarrow> polygon3 \<Rightarrow> error + polygon3" where
  "setColor arguments this =
     (case fromColor arguments of
        Inl e \<Rightarrow> Inl e
      | Inr newshared \<Rightarrow> Inr (this\<lparr>shared := newshared\<rparr>))"

subsection \<open>Measures\<close>

function signedVolumeLoop :: "vertex list \<Rightarrow> nat \<Rightarrow> real \<Rightarrow> real" where
  "signedVolumeLoop vs i signedVolume =
     (if i + 2 < length vs
      then signedVolumeLoop vs (i + 1)
             (signedVolume + dot (pos (vs ! 0)) (cross (pos (vs ! (i + 1))) (pos (vs ! (i + 2)))))
      else signedVolume)"
  by pat_completeness auto
termination
  by (relation "measure (\<lambda>(vs, i, s). length vs - i)") auto

declare signedVolumeLoop.simps [simp del]

definition getSignedVolume :: "polygon3 \<Rightarrow> real" where
  "getSignedVolume this = signedVolumeLoop (vertices this) 0 0 / 6"

function areaLoop :: "vertex list \<Rightarrow> nat \<Rightarrow> real \<Rightarrow> real" where
  "areaLoop vs i polygonArea =
     (if i + 2 < length vs
      then areaLoop vs (i + 1)
             (polygonArea + length3 (cross (minus3 (pos (vs ! (i + 1))) (pos (vs ! 0)))
                                           (minus3 (pos (vs ! (i + 2))) (pos (vs ! (i + 1))))))
      else polygonArea)"
  by pat_completeness auto
termination
  by (relation "measure (\<lambda>(vs, i, s). length vs - i)") auto

declare areaLoop.simps [simp del]

definition getArea :: "polygon3 \<Rightarrow> real" where
  "getArea this = areaLoop (vertices this) 0 0 / 2"

text \<open>The \<^verbatim>\<open>forEach\<close> of \<^verbatim>\<open>getTetraFeatures\<close>, pushing onto \<^verbatim>\<open>result\<close>.\<close>

fun featuresLoop :: "polygon3 \<Rightarrow> real list \<Rightarrow> string list \<Rightarrow> real list" where
  "featuresLoop this result [] = result"
| "featuresLoop this result (feature # features) =
     featuresLoop this
       (if feature = ''volume'' then result @ [getSignedVolume this]
        else if feature = ''area'' then result @ [getArea this]
        else result)
       features"

definition getTetraFeatures :: "polygon3 \<Rightarrow> string list \<Rightarrow> real list" where
  "getTetraFeatures this features = featuresLoop this [] features"

subsection \<open>Bounding volumes\<close>

text \<open>The loop of \<^verbatim>\<open>boundingBox\<close> over the vertices from index 1 on.\<close>

fun boxLoop :: "Vector3D \<Rightarrow> Vector3D \<Rightarrow> vertex list \<Rightarrow> Vector3D \<times> Vector3D" where
  "boxLoop minpoint maxpoint [] = (minpoint, maxpoint)"
| "boxLoop minpoint maxpoint (v # vs) =
     (let point = pos v in boxLoop (min3 minpoint point) (max3 maxpoint point) vs)"

definition computeBox :: "vertex list \<Rightarrow> Vector3D \<times> Vector3D" where
  "computeBox vs =
     (let numvertices = length vs;
          minpoint = (if numvertices = 0 then Vector3D 0 0 0 else pos (vs ! 0));
          maxpoint = minpoint
      in boxLoop minpoint maxpoint (drop 1 vs))"

text \<open>Both queries return their value together with the receiver after the call, whose
  cache they may have filled.\<close>

definition boundingBox :: "polygon3 \<Rightarrow> (Vector3D \<times> Vector3D) \<times> polygon3" where
  "boundingBox this =
     (case cachedBoundingBox this of
        None \<Rightarrow> (let box = computeBox (vertices this)
                 in (box, this\<lparr>cachedBoundingBox := Some box\<rparr>))
      | Some box \<Rightarrow> (box, this))"

definition boundingSphere :: "polygon3 \<Rightarrow> (Vector3D \<times> real) \<times> polygon3" where
  "boundingSphere this =
     (case cachedBoundingSphere this of
        None \<Rightarrow>
          (let (box, this1) = boundingBox this;
               middle = times3 (plus3 (fst box) (snd box)) (1 / 2);
               radius3 = minus3 (snd box) middle;
               radius = length3 radius3
           in ((middle, radius), this1\<lparr>cachedBoundingSphere := Some (middle, radius)\<rparr>))
      | Some sphere \<Rightarrow> (sphere, this))"

subsection \<open>Flip and transform\<close>

definition flipped :: "'m externals \<Rightarrow> polygon3 \<Rightarrow> error + polygon3" where
  "flipped E this =
     (let newvertices = map Vertex_flipped (vertices this);
          newvertices' = rev newvertices;
          newplane = Plane_flipped (plane this)
      in Polygon3 E newvertices' (Some (shared this)) (Some newplane))"

definition transform :: "'m externals \<Rightarrow> 'm \<Rightarrow> polygon3 \<Rightarrow> error + polygon3" where
  "transform E matrix4x4 this =
     (let newvertices = map (Vertex_transform E matrix4x4) (vertices this);
          newplane = Plane_transform E matrix4x4 (plane this);
          newvertices' = (if isMirroring E matrix4x4 then rev newvertices else newvertices)
      in Polygon3 E newvertices' (Some (shared this)) (Some newplane))"

definition translate :: "'m externals \<Rightarrow> Vector3D \<Rightarrow> polygon3 \<Rightarrow> error + polygon3" where
  "translate E offset this = transform E (translation E offset) this"

section \<open>A reference instance of the parameters\<close>

text \<open>
  Modelled from the spec: the affine matrix (\<^verbatim>\<open>./Matrix4\<close>) and the plane operations
  (\<^verbatim>\<open>./Plane\<close>) are external collaborators. The instance below is used to run the
  operations on concrete inputs: a matrix is its linear part, as three rows, and its
  translation; it maps a point \<open>p\<close> to \<open>A p + t\<close>; it is mirroring when the determinant
  of the linear part is negative; a plane is derived from three points as the unit
  normal of the triangle and the offset of its first point; a plane is transformed by
  mapping three of its points and flipping the derived plane under a mirroring matrix.
\<close>

record Matrix4x4 =
  row1 :: Vector3D
  row2 :: Vector3D
  row3 :: Vector3D
  shift :: Vector3D

definition multiply4x4 :: "Matrix4x4 \<Rightarrow> Vector3D \<Rightarrow> Vector3D" where
  "multiply4x4 m p = plus3 (Vector3D (dot (row1 m) p) (dot (row2 m) p) (dot (row3 m) p)) (shift m)"

definition Matrix_isMirroring :: "Matrix4x4 \<Rightarrow> bool" where
  "Matrix_isMirroring m = (dot (cross (row1 m) (row2 m)) (row3 m) < 0)"

definition Matrix_translation :: "Vector3D \<Rightarrow> Matrix4x4" where
  "Matrix_translation v =
     \<lparr>row1 = Vector3D 1 0 0, row2 = Vector3D 0 1 0, row3 = Vector3D 0 0 1, shift = v\<rparr>"



definition unit3 :: "Vector3D \<Rightarrow> Vector3D" where
  "unit3 a = times3 a (1 / length3 a)"

definition Plane_fromVector3Ds :: "Vector3D \<Rightarrow> Vector3D \<Rightarrow> Vector3D \<Rightarrow> plane" where
  "Plane_fromVector3Ds a b c =
     (let n = unit3 (cross (minus3 b a) (minus3 c a)) in \<lparr>normal = n, w = dot n a\<rparr>)"

definition randomNonParallelVector :: "Vector3D \<Rightarrow> Vector3D" where
  "randomNonParallelVector a =
     (if \<bar>vx a\<bar> \<le> \<bar>vy a\<bar> \<and> \<bar>vx a\<bar> \<le> \<bar>vz a\<bar> then Vector3D 1 0 0
      else if \<bar>vy a\<bar> \<le> \<bar>vx a\<bar> \<and> \<bar>vy a\<bar> \<le> \<bar>vz a\<bar> then Vector3D 0 1 0
      else Vector3D 0 0 1)"

definition Plane_transform_std :: "Matrix4x4 \<Rightarrow> plane \<Rightarrow> plane" where
  "Plane_transform_std m pl =
     (let r = randomNonParallelVector (normal pl);
          u = cross (normal pl) r;
          v = cross (normal pl) u;
          point1 = times3 (normal pl) (w pl);
          point2 = plus3 point1 u;
          point3 = plus3 point1 v;
          newplane = Plane_fromVector3Ds (multiply4x4 m point1) (multiply4x4 m point2)
                       (multiply4x4 m point3)
      in if Matrix_isMirroring m then Plane_flipped newplane else newplane)"

definition Vertex_transform_std :: "Matrix4x4 \<Rightarrow> vertex \<Rightarrow> vertex" where
  "Vertex_transform_std m v = Vertex (multiply4x4 m (pos v))"

definition stdExternals :: "bool \<Rightarrow> Matrix4x4 externals" where
  "stdExternals debug =
     \<lparr>CSGDEBUG = debug, EPS = 1 / 100000, fromVector3Ds = Plane_fromVector3Ds,
      Vertex_transform = Vertex_transform_std, Plane_transform = Plane_transform_std,
      isMirroring = Matrix_isMirroring, translation = Matrix_translation\<rparr>"

text \<open>The triangle of the source's own example: \<open>(0,0,0)\<close>, \<open>(0,10,0)\<close>, \<open>(0,10,10)\<close>.\<close>

definition exampleVertices :: "vertex list" where
  "exampleVertices =
     [Vertex (Vector3D 0 0 0), Vertex (Vector3D 0 10 0), Vertex (Vector3D 0 10 10)]"

definition examplePolygon :: polygon3 where
  "examplePolygon =
     \<lparr>vertices = exampleVertices, shared = defaultShared,
      plane = \<lparr>normal = Vector3D 1 0 0, w = 0\<rparr>,
      cachedBoundingBox = None, cachedBoundingSphere = None\<rparr>"

text \<open>The same triangle moved by \<open>(1,0,0)\<close>, on the plane \<open>x = 1\<close>.\<close>

definition shiftedPolygon :: polygon3 where
  "shiftedPolygon =
     \<lparr>vertices = [Vertex (Vector3D 1 0 0), Vertex (Vector3D 1 10 0), Vertex (Vector3D 1 10 10)],
      shared = defaultShared, plane = \<lparr>normal = Vector3D 1 0 0, w = 1\<rparr>,
      cachedBoundingBox = None, cachedBoundingSphere = None\<rparr>"

text \<open>The example triangle in reversed order on the plane \<open>x = 3\<close>, whose unit normal
  \<open>(-1,0,0)\<close> points to the origin: the offset is \<open>-3\<close>.\<close>

definition farPolygon :: polygon3 where
  "farPolygon =
     \<lparr>vertices = [Vertex (Vector3D 3 10 10), Vertex (Vector3D 3 10 0), Vertex (Vector3D 3 0 0)],
      shared = defaultShared, plane = \<lparr>normal = Vector3D (- 1) 0 0, w = - 3\<rparr>,
      cachedBoundingBox = None, cachedBoundingSphere = None\<rparr>"


section \<open>Notions the properties are stated with\<close>

text \<open>The area of the triangle \<open>a b c\<close>: half the length of the cross product of the two
  edges that leave \<open>a\<close>.\<close>

definition triangleArea :: "Vector3D \<Rightarrow> Vector3D \<Rightarrow> Vector3D \<Rightarrow> real" where
  "triangleArea a b c = length3 (cross (minus3 b a) (minus3 c a)) / 2"

text \<open>The area of the fan from vertex 0, each triangle counted with the orientation of its
  winding relative to the plane normal.\<close>

definition orientedArea :: "polygon3 \<Rightarrow> real" where
  "orientedArea p =
     (\<Sum>i<length (vertices p) - 2.
        dot (normal (plane p))
          (cross (minus3 (pos (vertices p ! (i + 1))) (pos (vertices p ! 0)))
                 (minus3 (pos (vertices p ! (i + 2))) (pos (vertices p ! (i + 1)))))) / 2"

text \<open>
  A polygon's caches are valid when each is empty or holds what the query computes on the
  same polygon with empty caches. The constructor leaves both empty, and only
  \<^verbatim>\<open>boundingBox\<close> and \<^verbatim>\<open>boundingSphere\<close> write them.
\<close>

definition cacheValid :: "polygon3 \<Rightarrow> bool" where
  "cacheValid p \<longleftrightarrow>
     cachedBoundingBox p \<in>
       {None, Some (fst (boundingBox (p\<lparr>cachedBoundingBox := None\<rparr>)))} \<and>
     cachedBoundingSphere p \<in>
       {None, Some (fst (boundingSphere (p\<lparr>cachedBoundingBox := None,
                                            cachedBoundingSphere := None\<rparr>)))}"

text \<open>The sphere that \<^verbatim>\<open>boundingSphere\<close> derives from a box.\<close>

definition sphereOf :: "Vector3D \<times> Vector3D \<Rightarrow> Vector3D \<times> real" where
  "sphereOf box = (let c = times3 (plus3 (fst box) (snd box)) (1 / 2)
                   in (c, length3 (minus3 (snd box) c)))"

section \<open>Properties of the convexity validation\<close>

lemma convexLoop_iff:
  "convexLoop pp p vs n \<longleftrightarrow>
     (\<forall>i<length vs. isConvexPoint ((pp # p # map pos vs) ! i) ((pp # p # map pos vs) ! Suc i)
        ((pp # p # map pos vs) ! Suc (Suc i)) n)"
proof (induction vs arbitrary: pp p)
  case Nil
  show ?case by simp
next
  case (Cons v vs)
  have "(\<forall>i<Suc (length vs). isConvexPoint ((pp # p # pos v # map pos vs) ! i)
            ((pp # p # pos v # map pos vs) ! Suc i) ((pp # p # pos v # map pos vs) ! Suc (Suc i)) n)
        \<longleftrightarrow> isConvexPoint pp p (pos v) n \<and>
            (\<forall>i<length vs. isConvexPoint ((p # pos v # map pos vs) ! i)
               ((p # pos v # map pos vs) ! Suc i) ((p # pos v # map pos vs) ! Suc (Suc i)) n)"
    by (simp add: All_less_Suc2)
  then show ?case using Cons.IH [of p "pos v"] by auto
qed

lemma mod_wrap1:
  fixes L i :: nat
  assumes "3 \<le> L" "i < L"
  shows "(i + L - 1) mod L = (if i = 0 then L - 1 else i - 1)"
proof (cases "i = 0")
  case True then show ?thesis using assms by simp
next
  case False
  then have e: "i + L - 1 = (i - 1) + L" by simp
  have "(i + L - 1) mod L = (i - 1) mod L" unfolding e by simp
  also have "\<dots> = i - 1" using assms by simp
  finally show ?thesis using False by simp
qed

lemma mod_wrap2:
  fixes L i :: nat
  assumes "3 \<le> L" "i < L"
  shows "(i + L - 2) mod L = (if i = 0 then L - 2 else if i = 1 then L - 1 else i - 2)"
proof -
  consider "i = 0" | "i = 1" | "2 \<le> i" by linarith
  then show ?thesis
  proof cases
    case 1 then show ?thesis using assms by simp
  next
    case 2 then show ?thesis using assms by simp
  next
    case 3
    then have e: "i + L - 2 = (i - 2) + L" by simp
    have "(i + L - 2) mod L = (i - 2) mod L" unfolding e by simp
    also have "\<dots> = i - 2" using assms by simp
    finally show ?thesis using 3 by simp
  qed
qed

lemma seq_nth:
  assumes "3 \<le> length vs" "i < length vs"
  shows "(pos (vs ! (length vs - 2)) # pos (vs ! (length vs - 1)) # map pos vs) ! i
           = pos (vs ! ((i + length vs - 2) mod length vs))"
    and "(pos (vs ! (length vs - 2)) # pos (vs ! (length vs - 1)) # map pos vs) ! Suc i
           = pos (vs ! ((i + length vs - 1) mod length vs))"
    and "(pos (vs ! (length vs - 2)) # pos (vs ! (length vs - 1)) # map pos vs) ! Suc (Suc i)
           = pos (vs ! i)"
proof -
  show "(pos (vs ! (length vs - 2)) # pos (vs ! (length vs - 1)) # map pos vs) ! Suc (Suc i)
           = pos (vs ! i)" using assms by simp
  show "(pos (vs ! (length vs - 2)) # pos (vs ! (length vs - 1)) # map pos vs) ! Suc i
           = pos (vs ! ((i + length vs - 1) mod length vs))"
    using assms by (cases i) (simp_all add: mod_wrap1)
  show "(pos (vs ! (length vs - 2)) # pos (vs ! (length vs - 1)) # map pos vs) ! i
           = pos (vs ! ((i + length vs - 2) mod length vs))"
  proof (cases i)
    case 0 then show ?thesis using assms by (simp add: mod_wrap2)
  next
    case (Suc j)
    then show ?thesis using assms by (cases j) (simp_all add: mod_wrap2)
  qed
qed

lemma verticesConvex_loop:
  assumes "3 \<le> length vs"
  shows "verticesConvex vs n \<longleftrightarrow>
     (\<forall>i<length vs. isConvexPoint (pos (vs ! ((i + length vs - 2) mod length vs)))
                                  (pos (vs ! ((i + length vs - 1) mod length vs)))
                                  (pos (vs ! i)) n)"
proof -
  have "verticesConvex vs n \<longleftrightarrow>
          convexLoop (pos (vs ! (length vs - 2))) (pos (vs ! (length vs - 1))) vs n"
    using assms by (simp add: verticesConvex_def Let_def)
  also have "\<dots> \<longleftrightarrow> (\<forall>i<length vs. isConvexPoint (pos (vs ! ((i + length vs - 2) mod length vs)))
                                  (pos (vs ! ((i + length vs - 1) mod length vs)))
                                  (pos (vs ! i)) n)"
    unfolding convexLoop_iff using seq_nth [OF assms] by simp
  finally show ?thesis .
qed

text \<open>
  C3. \<^verbatim>\<open>verticesConvex\<close> is true for every loop of at most two vertices. For a loop
  of three or more it is true exactly when, at every step \<open>i\<close> of the walk, whose
  previous and previous-previous positions start as the last two vertices (indices
  modulo the length), the cross product of \<open>cur - prev\<close> and \<open>next - cur\<close> has a
  non-negative dot product with the plane normal. \<^verbatim>\<open>isStrictlyConvexPoint\<close> asks for
  that dot product to be at least \<^verbatim>\<open>EPS\<close>.
\<close>

theorem verticesConvex_spec:
  "(length vs \<le> 2 \<longrightarrow> verticesConvex vs n) \<and>
   (3 \<le> length vs \<longrightarrow>
      (verticesConvex vs n \<longleftrightarrow>
        (\<forall>i<length vs.
           0 \<le> dot (cross (minus3 (pos (vs ! ((i + length vs - 1) mod length vs)))
                                 (pos (vs ! ((i + length vs - 2) mod length vs))))
                         (minus3 (pos (vs ! i))
                                 (pos (vs ! ((i + length vs - 1) mod length vs))))) n))) \<and>
   (isConvexPoint a b c n \<longleftrightarrow> 0 \<le> dot (cross (minus3 b a) (minus3 c b)) n) \<and>
   (isStrictlyConvexPoint E a b c n \<longleftrightarrow> EPS E \<le> dot (cross (minus3 b a) (minus3 c b)) n)"
proof (intro conjI impI)
  assume "length vs \<le> 2"
  then show "verticesConvex vs n" by (simp add: verticesConvex_def Let_def)
next
  assume "3 \<le> length vs"
  then show "verticesConvex vs n \<longleftrightarrow>
        (\<forall>i<length vs.
           0 \<le> dot (cross (minus3 (pos (vs ! ((i + length vs - 1) mod length vs)))
                                 (pos (vs ! ((i + length vs - 2) mod length vs))))
                         (minus3 (pos (vs ! i))
                                 (pos (vs ! ((i + length vs - 1) mod length vs))))) n)"
    by (simp add: verticesConvex_loop isConvexPoint_def Let_def)
next
  show "isConvexPoint a b c n \<longleftrightarrow> 0 \<le> dot (cross (minus3 b a) (minus3 c b)) n"
    by (simp add: isConvexPoint_def Let_def)
next
  show "isStrictlyConvexPoint E a b c n \<longleftrightarrow> EPS E \<le> dot (cross (minus3 b a) (minus3 c b)) n"
    by (simp add: isStrictlyConvexPoint_def Let_def)
qed

theorem verticesConvex_spec_witness:
  "3 \<le> length exampleVertices \<and> verticesConvex exampleVertices (Vector3D 1 0 0) \<and>
   \<not> verticesConvex exampleVertices (Vector3D (- 1) 0 0)"
proof -
  have len: "length exampleVertices = 3" by (simp add: exampleVertices_def)
  have p: "pos (exampleVertices ! 0) = Vector3D 0 0 0"
          "pos (exampleVertices ! Suc 0) = Vector3D 0 10 0"
          "pos (exampleVertices ! Suc (Suc 0)) = Vector3D 0 10 10"
          "pos (exampleVertices ! 1) = Vector3D 0 10 0"
          "pos (exampleVertices ! 2) = Vector3D 0 10 10"
    by (simp_all add: exampleVertices_def Vertex_def)
  have "\<And>i::nat. i < 3 \<longleftrightarrow> i = 0 \<or> i = 1 \<or> i = 2" by arith
  then have all3: "\<And>P. (\<forall>i<(3::nat). P i) \<longleftrightarrow> P 0 \<and> P 1 \<and> P 2" by auto
  have "verticesConvex exampleVertices (Vector3D 1 0 0)"
    using verticesConvex_spec [where vs = exampleVertices and n = "Vector3D 1 0 0",
        THEN conjunct2, THEN conjunct1]
    by (simp add: len all3 p dot_def cross_def minus3_def)
  moreover have "\<not> verticesConvex exampleVertices (Vector3D (- 1) 0 0)"
    using verticesConvex_spec [where vs = exampleVertices and n = "Vector3D (- 1) 0 0",
        THEN conjunct2, THEN conjunct1]
    by (simp add: len all3 p dot_def cross_def minus3_def)
  ultimately show ?thesis using len by simp
qed

section \<open>Properties of the measures\<close>

lemma featuresLoop_eq:
  "featuresLoop p acc fs =
     acc @ map (\<lambda>f. if f = ''volume'' then getSignedVolume p else getArea p)
             (filter (\<lambda>f. f = ''volume'' \<or> f = ''area'') fs)"
  by (induction fs arbitrary: acc) simp_all

text \<open>
  C8. For every list of feature names, \<^verbatim>\<open>getTetraFeatures\<close> returns, in the order of
  the list, the signed volume for each \<^verbatim>\<open>'volume'\<close> and the area for each
  \<^verbatim>\<open>'area'\<close>; any other name adds no entry, and the call cannot fail.
\<close>

theorem getTetraFeatures_spec:
  "getTetraFeatures p fs =
     map (\<lambda>f. if f = ''volume'' then getSignedVolume p else getArea p)
       (filter (\<lambda>f. f = ''volume'' \<or> f = ''area'') fs)"
  by (simp add: getTetraFeatures_def featuresLoop_eq)

lemma areaLoop_sum:
  "areaLoop vs i acc =
     acc + (\<Sum>k = i..<length vs - 2.
              length3 (cross (minus3 (pos (vs ! (k + 1))) (pos (vs ! 0)))
                             (minus3 (pos (vs ! (k + 2))) (pos (vs ! (k + 1))))))"
proof (induction vs i acc rule: areaLoop.induct)
  case (1 vs i acc)
  show ?case
  proof (cases "i + 2 < length vs")
    case True
    then have lt: "i < length vs - 2" by simp
    show ?thesis
      using "1.IH" [OF True] True
      by (subst areaLoop.simps) (simp add: sum.atLeast_Suc_lessThan [OF lt] add.assoc)
  next
    case False
    then show ?thesis by (subst areaLoop.simps) simp
  qed
qed

lemma signedVolumeLoop_sum:
  "signedVolumeLoop vs i acc =
     acc + (\<Sum>k = i..<length vs - 2.
              dot (pos (vs ! 0)) (cross (pos (vs ! (k + 1))) (pos (vs ! (k + 2)))))"
proof (induction vs i acc rule: signedVolumeLoop.induct)
  case (1 vs i acc)
  show ?case
  proof (cases "i + 2 < length vs")
    case True
    then have lt: "i < length vs - 2" by simp
    show ?thesis
      using "1.IH" [OF True] True
      by (subst signedVolumeLoop.simps) (simp add: sum.atLeast_Suc_lessThan [OF lt] add.assoc)
  next
    case False
    then show ?thesis by (subst signedVolumeLoop.simps) simp
  qed
qed

lemma cross_fan:
  "cross (minus3 b a) (minus3 c b) = cross (minus3 b a) (minus3 c a)"
  by (simp add: cross_def minus3_def algebra_simps)

lemma example_area: "areaLoop exampleVertices 0 0 = 100"
proof -
  have "sqrt (10000::real) = sqrt (100^2)" by simp
  also have "\<dots> = 100" by (simp only: real_sqrt_abs abs_numeral)
  finally have s: "sqrt (10000::real) = 100" .
  have len: "length exampleVertices - 2 = 1" by (simp add: exampleVertices_def)
  have p: "pos (exampleVertices ! 0) = Vector3D 0 0 0"
          "pos (exampleVertices ! Suc 0) = Vector3D 0 10 0"
          "pos (exampleVertices ! Suc (Suc 0)) = Vector3D 0 10 10"
          "pos (exampleVertices ! 1) = Vector3D 0 10 0"
          "pos (exampleVertices ! 2) = Vector3D 0 10 10"
    by (simp_all add: exampleVertices_def Vertex_def)
  show ?thesis
    unfolding areaLoop_sum len
    by (simp add: p length3_def dot_def cross_def minus3_def s)
qed

text \<open>
  C4. \<^verbatim>\<open>getArea\<close> returns the sum, over the fan from vertex 0, of half the length of
  the cross product of \<open>v[i+1] - v0\<close> and \<open>v[i+2] - v[i+1]\<close>; that is the sum of the
  areas of the fan's triangles; for the triangle \<open>(0,0,0)\<close>, \<open>(0,10,0)\<close>, \<open>(0,10,10)\<close>
  it is 50. (With fewer than three vertices both sides are 0.)
\<close>

theorem getArea_spec:
  "getArea p =
     (\<Sum>i<length (vertices p) - 2.
        length3 (cross (minus3 (pos (vertices p ! (i + 1))) (pos (vertices p ! 0)))
                       (minus3 (pos (vertices p ! (i + 2))) (pos (vertices p ! (i + 1))))) / 2) \<and>
   getArea p =
     (\<Sum>i<length (vertices p) - 2.
        triangleArea (pos (vertices p ! 0)) (pos (vertices p ! (i + 1)))
          (pos (vertices p ! (i + 2)))) \<and>
   getArea (p\<lparr>vertices := exampleVertices\<rparr>) = 50"
proof (intro conjI)
  show a: "getArea p =
     (\<Sum>i<length (vertices p) - 2.
        length3 (cross (minus3 (pos (vertices p ! (i + 1))) (pos (vertices p ! 0)))
                       (minus3 (pos (vertices p ! (i + 2))) (pos (vertices p ! (i + 1))))) / 2)"
    by (simp add: getArea_def areaLoop_sum atLeast0LessThan sum_divide_distrib)
  show "getArea p =
     (\<Sum>i<length (vertices p) - 2.
        triangleArea (pos (vertices p ! 0)) (pos (vertices p ! (i + 1)))
          (pos (vertices p ! (i + 2))))"
    unfolding a triangleArea_def cross_fan ..
  show "getArea (p\<lparr>vertices := exampleVertices\<rparr>) = 50"
    by (simp add: getArea_def example_area)
qed

lemma triple_identity:
  "dot a (cross u v) * dot n n =
     dot a n * dot n (cross u v) - dot n v * dot a (cross n u) + dot n u * dot a (cross n v)"
  by (simp add: dot_def cross_def algebra_simps)

lemma triple_shift:
  "dot a (cross b c) = dot a (cross (minus3 b a) (minus3 c a))"
  by (simp add: dot_def cross_def minus3_def algebra_simps)

lemma dot_minus3: "dot n (minus3 b a) = dot n b - dot n a"
  by (simp add: dot_def minus3_def algebra_simps)

lemma dot_commute: "dot a b = dot b a"
  by (simp add: dot_def algebra_simps)

lemma triple_coplanar:
  assumes "dot n a = k" "dot n b = k" "dot n c = k" "dot n n = 1"
  shows "dot a (cross b c) = k * dot n (cross (minus3 b a) (minus3 c b))"
proof -
  have u: "dot n (minus3 b a) = 0" and v: "dot n (minus3 c a) = 0"
    using assms by (simp_all add: dot_minus3)
  have "dot a (cross b c) = dot a (cross (minus3 b a) (minus3 c a)) * dot n n"
    using assms(4) triple_shift [of a b c] by simp
  also have "\<dots> = dot a n * dot n (cross (minus3 b a) (minus3 c a))"
    unfolding triple_identity [of a "minus3 b a" "minus3 c a" n] u v by simp
  also have "\<dots> = k * dot n (cross (minus3 b a) (minus3 c b))"
    using assms(1) by (simp add: dot_commute [of a n] cross_fan)
  finally show ?thesis .
qed

lemma signedVolume_coplanar:
  assumes h: "\<forall>v \<in> set (vertices p). dot (normal (plane p)) (pos v) = w (plane p)"
    and u: "dot (normal (plane p)) (normal (plane p)) = 1"
  shows "getSignedVolume p = w (plane p) / 3 * orientedArea p"
proof -
  have a: "getSignedVolume p =
     (\<Sum>i<length (vertices p) - 2.
        dot (pos (vertices p ! 0))
            (cross (pos (vertices p ! (i + 1))) (pos (vertices p ! (i + 2))))) / 6"
    by (simp add: getSignedVolume_def signedVolumeLoop_sum atLeast0LessThan)
  have on: "\<And>j. j < length (vertices p) \<Longrightarrow>
              dot (normal (plane p)) (pos (vertices p ! j)) = w (plane p)"
    using h by simp
  have "(\<Sum>i<length (vertices p) - 2.
          dot (pos (vertices p ! 0))
              (cross (pos (vertices p ! (i + 1))) (pos (vertices p ! (i + 2)))))
        = (\<Sum>i<length (vertices p) - 2.
             w (plane p) * dot (normal (plane p))
               (cross (minus3 (pos (vertices p ! (i + 1))) (pos (vertices p ! 0)))
                      (minus3 (pos (vertices p ! (i + 2))) (pos (vertices p ! (i + 1))))))"
  proof (rule sum.cong [OF refl])
    fix i assume "i \<in> {..<length (vertices p) - 2}"
    then have i: "i + 2 < length (vertices p)" by simp
    show "dot (pos (vertices p ! 0))
              (cross (pos (vertices p ! (i + 1))) (pos (vertices p ! (i + 2))))
          = w (plane p) * dot (normal (plane p))
               (cross (minus3 (pos (vertices p ! (i + 1))) (pos (vertices p ! 0)))
                      (minus3 (pos (vertices p ! (i + 2))) (pos (vertices p ! (i + 1)))))"
    proof (rule triple_coplanar)
      show "dot (normal (plane p)) (pos (vertices p ! 0)) = w (plane p)"
        using i by (intro on) auto
      show "dot (normal (plane p)) (pos (vertices p ! (i + 1))) = w (plane p)"
        using i by (intro on) simp
      show "dot (normal (plane p)) (pos (vertices p ! (i + 2))) = w (plane p)"
        using i by (intro on) simp
      show "dot (normal (plane p)) (normal (plane p)) = 1" by (rule u)
    qed
  qed
  then have "getSignedVolume p =
      (w (plane p) * (\<Sum>i<length (vertices p) - 2.
             dot (normal (plane p))
               (cross (minus3 (pos (vertices p ! (i + 1))) (pos (vertices p ! 0)))
                      (minus3 (pos (vertices p ! (i + 2))) (pos (vertices p ! (i + 1))))))) / 6"
    unfolding a by (simp only: sum_distrib_left)
  then show ?thesis unfolding orientedArea_def by simp
qed

lemma far_values:
  "orientedArea farPolygon = 50" "getSignedVolume farPolygon = - 50"
  by (simp_all add: orientedArea_def getSignedVolume_def signedVolumeLoop_sum farPolygon_def
      Vertex_def dot_def cross_def minus3_def)

lemma shifted_values:
  "orientedArea shiftedPolygon = 50" "getSignedVolume shiftedPolygon = 50 / 3"
  by (simp_all add: orientedArea_def getSignedVolume_def signedVolumeLoop_sum shiftedPolygon_def
      Vertex_def dot_def cross_def minus3_def)

text \<open>
  C5, as stated, fails in its sign clause: two convex faces wound the same way relative to
  their plane normals (oriented area 50 each) have signed volumes of opposite signs,
  because their planes lie on opposite sides of the origin.
\<close>

theorem getSignedVolume_sign_counterexample:
  "checkIfConvex farPolygon \<and> orientedArea farPolygon = 50 \<and>
   getSignedVolume farPolygon = - 50 \<and>
   checkIfConvex shiftedPolygon \<and> orientedArea shiftedPolygon = 50 \<and>
   getSignedVolume shiftedPolygon = 50 / 3"
proof -
  have "checkIfConvex farPolygon"
    by (simp add: checkIfConvex_def verticesConvex_def farPolygon_def Vertex_def
        isConvexPoint_def dot_def cross_def minus3_def Let_def)
  moreover have "checkIfConvex shiftedPolygon"
    by (simp add: checkIfConvex_def verticesConvex_def shiftedPolygon_def Vertex_def
        isConvexPoint_def dot_def cross_def minus3_def Let_def)
  ultimately show ?thesis by (simp add: far_values shifted_values)
qed

text \<open>
  C5, amended. \<^verbatim>\<open>getSignedVolume\<close> returns the sum over the fan from vertex 0 of the
  scalar triple products \<open>v0 \<cdot> (v[i+1] \<times> v[i+2])\<close>, divided by 6. When the vertices lie on
  the polygon's plane and its normal is a unit vector, that is a third of the plane's
  offset times the area of the fan counted with the orientation of the loop relative to
  the plane normal: the sign of the volume is the sign of the offset times the sign of
  that orientation, and the volume is 0 when the plane passes through the origin.
\<close>

theorem getSignedVolume_spec:
  "getSignedVolume p =
     (\<Sum>i<length (vertices p) - 2.
        dot (pos (vertices p ! 0))
            (cross (pos (vertices p ! (i + 1))) (pos (vertices p ! (i + 2))))) / 6 \<and>
   ((\<forall>v \<in> set (vertices p). dot (normal (plane p)) (pos v) = w (plane p)) \<and>
    dot (normal (plane p)) (normal (plane p)) = 1 \<longrightarrow>
      getSignedVolume p = w (plane p) / 3 * orientedArea p \<and>
      sgn (getSignedVolume p) = sgn (w (plane p)) * sgn (orientedArea p))"
proof (rule conjI)
  show "getSignedVolume p =
     (\<Sum>i<length (vertices p) - 2.
        dot (pos (vertices p ! 0))
            (cross (pos (vertices p ! (i + 1))) (pos (vertices p ! (i + 2))))) / 6"
    by (simp add: getSignedVolume_def signedVolumeLoop_sum atLeast0LessThan)
  show "(\<forall>v \<in> set (vertices p). dot (normal (plane p)) (pos v) = w (plane p)) \<and>
    dot (normal (plane p)) (normal (plane p)) = 1 \<longrightarrow>
      getSignedVolume p = w (plane p) / 3 * orientedArea p \<and>
      sgn (getSignedVolume p) = sgn (w (plane p)) * sgn (orientedArea p)"
  proof
    assume h: "(\<forall>v \<in> set (vertices p). dot (normal (plane p)) (pos v) = w (plane p)) \<and>
      dot (normal (plane p)) (normal (plane p)) = 1"
    then have e: "getSignedVolume p = w (plane p) / 3 * orientedArea p"
      by (intro signedVolume_coplanar) simp_all
    have "sgn (w (plane p) / 3 * orientedArea p) = sgn (w (plane p)) * sgn (orientedArea p)"
      by (simp add: sgn_mult sgn_divide)
    then have "sgn (getSignedVolume p) = sgn (w (plane p)) * sgn (orientedArea p)"
      by (simp only: e)
    with e show "getSignedVolume p = w (plane p) / 3 * orientedArea p \<and>
      sgn (getSignedVolume p) = sgn (w (plane p)) * sgn (orientedArea p)" ..
  qed
qed

theorem getSignedVolume_spec_witness:
  "getSignedVolume shiftedPolygon = 1 / 3 * 50 \<and> orientedArea shiftedPolygon = 50 \<and>
   w (plane shiftedPolygon) = 1 \<and> sgn (getSignedVolume shiftedPolygon) = 1 \<and>
   getSignedVolume farPolygon = - 3 / 3 * 50 \<and> orientedArea farPolygon = 50 \<and>
   w (plane farPolygon) = - 3 \<and> sgn (getSignedVolume farPolygon) = - 1 \<and>
   getSignedVolume examplePolygon = 0 \<and> w (plane examplePolygon) = 0"
proof -
  have hs: "(\<forall>v \<in> set (vertices shiftedPolygon).
              dot (normal (plane shiftedPolygon)) (pos v) = w (plane shiftedPolygon)) \<and>
           dot (normal (plane shiftedPolygon)) (normal (plane shiftedPolygon)) = 1"
    by (simp add: shiftedPolygon_def Vertex_def dot_def)
  have hf: "(\<forall>v \<in> set (vertices farPolygon).
              dot (normal (plane farPolygon)) (pos v) = w (plane farPolygon)) \<and>
           dot (normal (plane farPolygon)) (normal (plane farPolygon)) = 1"
    by (simp add: farPolygon_def Vertex_def dot_def)
  have he: "(\<forall>v \<in> set (vertices examplePolygon).
              dot (normal (plane examplePolygon)) (pos v) = w (plane examplePolygon)) \<and>
           dot (normal (plane examplePolygon)) (normal (plane examplePolygon)) = 1"
    by (simp add: examplePolygon_def exampleVertices_def Vertex_def dot_def)
  have ws: "w (plane shiftedPolygon) = 1" by (simp add: shiftedPolygon_def)
  have wf: "w (plane farPolygon) = - 3" by (simp add: farPolygon_def)
  have we: "w (plane examplePolygon) = 0" by (simp add: examplePolygon_def)
  have s: "getSignedVolume shiftedPolygon = 1 / 3 * 50 \<and> sgn (getSignedVolume shiftedPolygon) = 1"
    using getSignedVolume_spec [of shiftedPolygon, THEN conjunct2, rule_format, OF hs]
    unfolding ws shifted_values(1) by simp
  have f: "getSignedVolume farPolygon = - 3 / 3 * 50 \<and> sgn (getSignedVolume farPolygon) = - 1"
    using getSignedVolume_spec [of farPolygon, THEN conjunct2, rule_format, OF hf]
    unfolding wf far_values(1) by simp
  have e: "getSignedVolume examplePolygon = 0"
    using getSignedVolume_spec [of examplePolygon, THEN conjunct2, rule_format, OF he]
    unfolding we by simp
  show ?thesis using s f e ws wf we by (simp add: shifted_values(1) far_values(1))
qed

section \<open>Properties of the bounding volumes\<close>

lemma Min_insert_min:
  fixes a b :: real
  assumes "finite S"
  shows "Min (insert (min a b) S) = Min (insert a (insert b S))"
  using assms by (cases "S = {}") (simp_all add: min.assoc)

lemma Max_insert_max:
  fixes a b :: real
  assumes "finite S"
  shows "Max (insert (max a b) S) = Max (insert a (insert b S))"
  using assms by (cases "S = {}") (simp_all add: max.assoc)

lemma boxLoop_MinMax:
  "boxLoop lo hi vs =
     (Vector3D (Min (insert (vx lo) (vx ` pos ` set vs)))
               (Min (insert (vy lo) (vy ` pos ` set vs)))
               (Min (insert (vz lo) (vz ` pos ` set vs))),
      Vector3D (Max (insert (vx hi) (vx ` pos ` set vs)))
               (Max (insert (vy hi) (vy ` pos ` set vs)))
               (Max (insert (vz hi) (vz ` pos ` set vs))))"
proof (induction vs arbitrary: lo hi)
  case Nil
  show ?case by simp
next
  case (Cons v vs)
  show ?case
    by (simp add: Cons.IH min3_def max3_def Let_def Min_insert_min Max_insert_max
        del: Min_insert Max_insert)
qed

lemma computeBox_MinMax:
  "computeBox vs =
     (if vs = [] then (Vector3D 0 0 0, Vector3D 0 0 0)
      else (Vector3D (Min (vx ` pos ` set vs)) (Min (vy ` pos ` set vs)) (Min (vz ` pos ` set vs)),
            Vector3D (Max (vx ` pos ` set vs)) (Max (vy ` pos ` set vs)) (Max (vz ` pos ` set vs))))"
proof (cases vs)
  case Nil
  then show ?thesis by (simp add: computeBox_def Let_def)
next
  case (Cons v rest)
  then show ?thesis by (simp add: computeBox_def Let_def boxLoop_MinMax del: Min_insert Max_insert)
qed

lemma boundingBox_fresh:
  "cachedBoundingBox p = None \<Longrightarrow> fst (boundingBox p) = computeBox (vertices p)"
  by (simp add: boundingBox_def Let_def)

lemma boundingBox_valid:
  assumes "cacheValid p"
  shows "fst (boundingBox p) = computeBox (vertices p)"
proof (cases "cachedBoundingBox p")
  case None
  then show ?thesis by (rule boundingBox_fresh)
next
  case (Some b)
  then have "b = fst (boundingBox (p\<lparr>cachedBoundingBox := None\<rparr>))"
    using assms by (simp add: cacheValid_def)
  then show ?thesis using Some by (simp add: boundingBox_def Let_def)
qed

lemma boundingSphere_valid:
  assumes "cacheValid p"
  shows "fst (boundingSphere p) = sphereOf (computeBox (vertices p))"
proof (cases "cachedBoundingSphere p")
  case None
  obtain box p1 where b: "boundingBox p = (box, p1)" by (cases "boundingBox p")
  then have "box = computeBox (vertices p)" using boundingBox_valid [OF assms] by simp
  then show ?thesis using None b
    by (simp add: boundingSphere_def sphereOf_def Let_def)
next
  case (Some sph)
  then have "sph = fst (boundingSphere (p\<lparr>cachedBoundingBox := None, cachedBoundingSphere := None\<rparr>))"
    using assms by (simp add: cacheValid_def)
  then show ?thesis using Some
    by (simp add: boundingSphere_def boundingBox_def sphereOf_def Let_def)
qed

lemma cacheValid_iff:
  "cacheValid p \<longleftrightarrow>
     cachedBoundingBox p \<in> {None, Some (computeBox (vertices p))} \<and>
     cachedBoundingSphere p \<in> {None, Some (sphereOf (computeBox (vertices p)))}"
  by (simp add: cacheValid_def boundingBox_def boundingSphere_def sphereOf_def Let_def)

lemma Polygon3_fields:
  assumes "Polygon3 E vs sh pl = Inr q"
  shows "vertices q = vs"
    and "shared q = (case sh of None \<Rightarrow> defaultShared | Some s \<Rightarrow> s)"
    and "cachedBoundingBox q = None" and "cachedBoundingSphere q = None"
  using assms
  by (auto simp: Polygon3_def Let_def split: option.splits list.splits if_splits)

lemma Polygon3_cacheValid: "Polygon3 E vs sh pl = Inr q \<Longrightarrow> cacheValid q"
  by (simp add: cacheValid_iff Polygon3_fields)

lemma boundingBox_frame:
  "vertices (snd (boundingBox p)) = vertices p \<and> shared (snd (boundingBox p)) = shared p \<and>
   plane (snd (boundingBox p)) = plane p \<and>
   cachedBoundingSphere (snd (boundingBox p)) = cachedBoundingSphere p"
  by (simp add: boundingBox_def Let_def split: option.splits)

lemma boundingSphere_frame:
  "vertices (snd (boundingSphere p)) = vertices p \<and>
   shared (snd (boundingSphere p)) = shared p \<and> plane (snd (boundingSphere p)) = plane p"
proof -
  obtain box p1 where b: "boundingBox p = (box, p1)" by (cases "boundingBox p")
  then have "vertices p1 = vertices p \<and> shared p1 = shared p \<and> plane p1 = plane p"
    using boundingBox_frame [of p] by simp
  then show ?thesis using b
    by (simp add: boundingSphere_def Let_def split: option.splits)
qed

lemma boundingBox_cacheValid:
  assumes "cacheValid p"
  shows "cacheValid (snd (boundingBox p))"
    and "cachedBoundingBox (snd (boundingBox p)) = Some (fst (boundingBox p))"
  using assms
  by (auto simp: cacheValid_iff boundingBox_def Let_def split: option.splits)

lemma boundingSphere_cacheValid:
  assumes "cacheValid p"
  shows "cacheValid (snd (boundingSphere p))"
    and "cachedBoundingSphere (snd (boundingSphere p)) = Some (fst (boundingSphere p))"
proof -
  obtain box p1 where b: "boundingBox p = (box, p1)" by (cases "boundingBox p")
  have v: "cacheValid p1" "vertices p1 = vertices p" "box = computeBox (vertices p)"
    using boundingBox_cacheValid(1) [OF assms] boundingBox_frame [of p]
      boundingBox_valid [OF assms] b by simp_all
  show "cacheValid (snd (boundingSphere p))"
    using assms v b
    by (auto simp: cacheValid_iff boundingSphere_def sphereOf_def Let_def split: option.splits)
  show "cachedBoundingSphere (snd (boundingSphere p)) = Some (fst (boundingSphere p))"
    using b by (auto simp: boundingSphere_def Let_def split: option.splits)
qed

text \<open>A second call returns the cached value and leaves the receiver as it is.\<close>

lemma boundingBox_cached:
  "boundingBox (snd (boundingBox p)) = (fst (boundingBox p), snd (boundingBox p))"
  by (simp add: boundingBox_def Let_def split: option.splits)

lemma boundingSphere_cached:
  "boundingSphere (snd (boundingSphere p)) = (fst (boundingSphere p), snd (boundingSphere p))"
proof -
  obtain box p1 where b: "boundingBox p = (box, p1)" by (cases "boundingBox p")
  show ?thesis using b
    by (simp add: boundingSphere_def Let_def split: option.splits)
qed

lemma setColor_cacheValid:
  "setColor args p = Inr q \<Longrightarrow> cacheValid p \<Longrightarrow> cacheValid q"
  by (auto simp: setColor_def cacheValid_iff split: sum.splits)

text \<open>
  C6. On a polygon whose caches are valid (every polygon the constructor returned, after
  any sequence of calls), \<^verbatim>\<open>boundingBox\<close> returns the component-wise minimum and
  maximum of the vertex positions, and the origin twice when there is no vertex;
  \<^verbatim>\<open>boundingSphere\<close> returns the midpoint of the box's corners and the distance from
  it to the maximum corner.
\<close>

theorem bounding_spec:
  assumes "cacheValid p"
  shows
   "fst (boundingBox p) =
      (if vertices p = [] then (Vector3D 0 0 0, Vector3D 0 0 0)
       else (Vector3D (Min (vx ` pos ` set (vertices p))) (Min (vy ` pos ` set (vertices p)))
                      (Min (vz ` pos ` set (vertices p))),
             Vector3D (Max (vx ` pos ` set (vertices p))) (Max (vy ` pos ` set (vertices p)))
                      (Max (vz ` pos ` set (vertices p))))) \<and>
    fst (boundingSphere p) =
      (let (lo, hi) = fst (boundingBox p);
           c = Vector3D ((vx lo + vx hi) / 2) ((vy lo + vy hi) / 2) ((vz lo + vz hi) / 2)
       in (c, sqrt ((vx hi - vx c)\<^sup>2 + (vy hi - vy c)\<^sup>2 + (vz hi - vz c)\<^sup>2)))"
proof (intro conjI)
  show "fst (boundingBox p) =
      (if vertices p = [] then (Vector3D 0 0 0, Vector3D 0 0 0)
       else (Vector3D (Min (vx ` pos ` set (vertices p))) (Min (vy ` pos ` set (vertices p)))
                      (Min (vz ` pos ` set (vertices p))),
             Vector3D (Max (vx ` pos ` set (vertices p))) (Max (vy ` pos ` set (vertices p)))
                      (Max (vz ` pos ` set (vertices p)))))"
    unfolding boundingBox_valid [OF assms] by (rule computeBox_MinMax)
  obtain lo hi where c: "computeBox (vertices p) = (lo, hi)" by (cases "computeBox (vertices p)")
  show "fst (boundingSphere p) =
      (let (lo, hi) = fst (boundingBox p);
           c = Vector3D ((vx lo + vx hi) / 2) ((vy lo + vy hi) / 2) ((vz lo + vz hi) / 2)
       in (c, sqrt ((vx hi - vx c)\<^sup>2 + (vy hi - vy c)\<^sup>2 + (vz hi - vz c)\<^sup>2)))"
    unfolding boundingBox_valid [OF assms] boundingSphere_valid [OF assms] c
    by (simp add: sphereOf_def Let_def times3_def plus3_def minus3_def length3_def dot_def
        power2_eq_square)
qed

theorem bounding_spec_witness:
  "cacheValid examplePolygon \<and>
   fst (boundingBox examplePolygon) = (Vector3D 0 0 0, Vector3D 0 10 10) \<and>
   fst (boundingSphere examplePolygon) = (Vector3D 0 5 5, sqrt 50)"
proof -
  have v: "cacheValid examplePolygon" by (simp add: cacheValid_iff examplePolygon_def)
  have b: "fst (boundingBox examplePolygon) = (Vector3D 0 0 0, Vector3D 0 10 10)"
    using bounding_spec [OF v, THEN conjunct1]
    by (simp add: examplePolygon_def exampleVertices_def Vertex_def)
  have "fst (boundingSphere examplePolygon) = (Vector3D 0 5 5, sqrt 50)"
    using bounding_spec [OF v, THEN conjunct2] unfolding b by simp
  then show ?thesis using v b by simp
qed

section \<open>Properties of Polygon3.Shared\<close>

lemma pushArguments_eq: "pushArguments col args = col @ args"
  by (induction args arbitrary: col) simp_all

text \<open>
  C7, as stated, fails at a single numeric argument: \<^verbatim>\<open>fromColor(1)\<close> has an arity
  other than 3 or 4, and it does not fail with the arity error: \<^verbatim>\<open>arguments[0].slice\<close>
  is not a function of a number.
\<close>

theorem fromColor_numeric_counterexample:
  "fromColor [Num 1] = Inl TypeError \<and> fromColor [Num 1] \<noteq> Inl InvalidColor"
  by (simp add: fromColor_def)

text \<open>
  C7, amended. \<^verbatim>\<open>Shared\<close> accepts a missing color and a color of exactly 4 components,
  and fails with \<^verbatim>\<open>InvalidColor\<close> on any other. \<^verbatim>\<open>fromColor\<close> accepts 3 or 4
  arguments, or a single array of 3 or 4 elements, and appends alpha 1 to 3 components;
  any other number of arguments (but one) and any other length of a single array fail
  with \<^verbatim>\<open>InvalidColor\<close>; a single argument that is a number fails with a \<^verbatim>\<open>TypeError\<close>.
  A 2-element array is rejected by both.
\<close>

theorem Shared_spec:
  "Shared None = Inr \<lparr>color = None\<rparr> \<and>
   Shared (Some c) = (if length c = 4 then Inr \<lparr>color = Some c\<rparr> else Inl InvalidColor) \<and>
   (length args \<noteq> 1 \<longrightarrow>
      fromColor args =
        (if length args = 3 then Inr \<lparr>color = Some (args @ [Num 1])\<rparr>
         else if length args = 4 then Inr \<lparr>color = Some args\<rparr>
         else Inl InvalidColor)) \<and>
   fromColor [Arr xs] =
     (if length xs = 3 then Inr \<lparr>color = Some (xs @ [Num 1])\<rparr>
      else if length xs = 4 then Inr \<lparr>color = Some xs\<rparr>
      else Inl InvalidColor) \<and>
   fromColor [Num r] = Inl TypeError \<and>
   Shared (Some [a, b]) = Inl InvalidColor \<and> fromColor [Arr [a, b]] = Inl InvalidColor"
  by (simp add: Shared_def fromColor_def pushArguments_eq)

theorem Shared_spec_witness:
  "fromColor [Num 1, Num 0, Num 0] = Inr \<lparr>color = Some [Num 1, Num 0, Num 0, Num 1]\<rparr> \<and>
   fromColor [Num 0, Num 0, Num 0, Num (1 / 2)] =
     Inr \<lparr>color = Some [Num 0, Num 0, Num 0, Num (1 / 2)]\<rparr> \<and>
   fromColor [] = Inl InvalidColor \<and>
   fromColor [Num 1, Num 0] = Inl InvalidColor \<and>
   fromColor [Num 1, Num 0, Num 0, Num 1, Num 1] = Inl InvalidColor"
  using Shared_spec [where args = "[Num 1, Num 0, Num 0]"]
    Shared_spec [where args = "[Num 0, Num 0, Num 0, Num (1 / 2)]"]
    Shared_spec [where args = "[]"]
    Shared_spec [where args = "[Num 1, Num 0]"]
    Shared_spec [where args = "[Num 1, Num 0, Num 0, Num 1, Num 1]"]
  by simp

section \<open>Convexity of the flipped loop\<close>

lemma negated_negated: "negated (negated a) = a"
  by (simp add: negated_def)

lemma Vertex_flipped_twice: "Vertex_flipped (Vertex_flipped v) = v"
  by (simp add: Vertex_flipped_def option.map_comp comp_def negated_negated option.map_ident)

lemma Plane_flipped_twice: "Plane_flipped (Plane_flipped pl) = pl"
  by (simp add: Plane_flipped_def negated_negated)

lemma pos_Vertex_flipped: "pos (Vertex_flipped v) = pos v"
  by (simp add: Vertex_flipped_def)

lemma isConvexPoint_reversed:
  "isConvexPoint a b c (negated n) \<longleftrightarrow> isConvexPoint c b a n"
proof -
  have "dot (cross (minus3 b a) (minus3 c b)) (negated n)
          = dot (cross (minus3 b c) (minus3 a b)) n"
    by (simp add: dot_def cross_def minus3_def negated_def algebra_simps)
  then show ?thesis by (simp add: isConvexPoint_def Let_def)
qed

lemma cyclic_triples_reversed:
  fixes L :: nat and T :: "'a \<Rightarrow> 'a \<Rightarrow> 'a \<Rightarrow> bool" and f :: "nat \<Rightarrow> 'a"
  assumes L: "3 \<le> L"
  shows "(\<forall>i<L. T (f (L - 1 - i)) (f (L - 1 - (i + L - 1) mod L)) (f (L - 1 - (i + L - 2) mod L)))
           \<longleftrightarrow> (\<forall>j<L. T (f ((j + L - 2) mod L)) (f ((j + L - 1) mod L)) (f j))"
    (is "?A \<longleftrightarrow> ?B")
proof -
  define tr where "tr i = (L - 1 - i, L - 1 - (i + L - 1) mod L, L - 1 - (i + L - 2) mod L)" for i
  define tc where "tc j = ((j + L - 2) mod L, (j + L - 1) mod L, j)" for j
  define s where "s i = (if i = 0 then 1 else if i = 1 then 0 else L + 1 - i)" for i :: nat
  have s_less: "s i < L" if "i < L" for i
    using that L by (auto simp: s_def)
  have s_s: "s (s i) = i" if "i < L" for i
    using that L by (auto simp: s_def)
  have tr_tc: "tr i = tc (s i)" if i: "i < L" for i
  proof -
    consider "i = 0" | "i = 1" | "2 \<le> i" by linarith
    then show ?thesis
    proof cases
      case 1
      then show ?thesis using L by (simp add: tr_def tc_def s_def mod_wrap1 mod_wrap2)
    next
      case 2
      then show ?thesis using L by (simp add: tr_def tc_def s_def mod_wrap1 mod_wrap2)
    next
      case 3
      have sl: "s i < L" by (rule s_less [OF i])
      have sv: "s i = L + 1 - i" using 3 by (simp add: s_def)
      have s2: "2 \<le> s i" using i sv by simp
      have a: "(i + L - 1) mod L = i - 1" "(i + L - 2) mod L = i - 2"
        using mod_wrap1 [OF L i] mod_wrap2 [OF L i] 3 by simp_all
      have b: "(s i + L - 1) mod L = s i - 1" "(s i + L - 2) mod L = s i - 2"
        using mod_wrap1 [OF L sl] mod_wrap2 [OF L sl] s2 by simp_all
      have "tr i = (L - 1 - i, L - 1 - (i - 1), L - 1 - (i - 2))"
        unfolding tr_def a ..
      moreover have "tc (s i) = (s i - 2, s i - 1, s i)"
        unfolding tc_def b ..
      moreover have "L - 1 - i = s i - 2" "L - 1 - (i - 1) = s i - 1" "L - 1 - (i - 2) = s i"
        using i 3 sv by simp_all
      ultimately show ?thesis by simp
    qed
  qed
  have A: "?A \<longleftrightarrow> (\<forall>i<L. case tr i of (a, b, c) \<Rightarrow> T (f a) (f b) (f c))"
    by (simp add: tr_def)
  have B: "?B \<longleftrightarrow> (\<forall>j<L. case tc j of (a, b, c) \<Rightarrow> T (f a) (f b) (f c))"
    by (simp add: tc_def)
  have "(\<forall>i<L. case tr i of (a, b, c) \<Rightarrow> T (f a) (f b) (f c))
          \<longleftrightarrow> (\<forall>j<L. case tc j of (a, b, c) \<Rightarrow> T (f a) (f b) (f c))"
  proof
    assume h: "\<forall>i<L. case tr i of (a, b, c) \<Rightarrow> T (f a) (f b) (f c)"
    show "\<forall>j<L. case tc j of (a, b, c) \<Rightarrow> T (f a) (f b) (f c)"
    proof (intro allI impI)
      fix j assume j: "j < L"
      have "case tr (s j) of (a, b, c) \<Rightarrow> T (f a) (f b) (f c)"
        by (rule h [rule_format, OF s_less [OF j]])
      then show "case tc j of (a, b, c) \<Rightarrow> T (f a) (f b) (f c)"
        using tr_tc [OF s_less [OF j]] s_s [OF j] by simp
    qed
  next
    assume h: "\<forall>j<L. case tc j of (a, b, c) \<Rightarrow> T (f a) (f b) (f c)"
    show "\<forall>i<L. case tr i of (a, b, c) \<Rightarrow> T (f a) (f b) (f c)"
    proof (intro allI impI)
      fix i assume i: "i < L"
      have "case tc (s i) of (a, b, c) \<Rightarrow> T (f a) (f b) (f c)"
        by (rule h [rule_format, OF s_less [OF i]])
      then show "case tr i of (a, b, c) \<Rightarrow> T (f a) (f b) (f c)"
        using tr_tc [OF i] by simp
    qed
  qed
  then show ?thesis unfolding A B .
qed

lemma verticesConvex_flipped:
  "verticesConvex (rev (map Vertex_flipped vs)) (negated n) \<longleftrightarrow> verticesConvex vs n"
proof (cases "3 \<le> length vs")
  case False
  then show ?thesis by (simp add: verticesConvex_def)
next
  case True
  let ?L = "length vs"
  let ?ws = "rev (map Vertex_flipped vs)"
  have len: "length ?ws = ?L" by simp
  have nth: "\<And>k. k < ?L \<Longrightarrow> pos (?ws ! k) = pos (vs ! (?L - 1 - k))"
    by (simp add: rev_nth pos_Vertex_flipped)
  have Lpos: "0 < ?L" using True by auto
  have True': "3 \<le> length ?ws" using True by simp
  have "verticesConvex ?ws (negated n) \<longleftrightarrow>
        (\<forall>i<?L. isConvexPoint (pos (?ws ! ((i + ?L - 2) mod ?L))) (pos (?ws ! ((i + ?L - 1) mod ?L)))
                   (pos (?ws ! i)) (negated n))"
    unfolding verticesConvex_loop [OF True', of "negated n"] len ..
  also have "\<dots> \<longleftrightarrow>
        (\<forall>i<?L. isConvexPoint (pos (vs ! (?L - 1 - i))) (pos (vs ! (?L - 1 - (i + ?L - 1) mod ?L)))
                   (pos (vs ! (?L - 1 - (i + ?L - 2) mod ?L))) n)"
    using Lpos by (simp add: nth isConvexPoint_reversed)
  also have "\<dots> \<longleftrightarrow>
        (\<forall>j<?L. isConvexPoint (pos (vs ! ((j + ?L - 2) mod ?L))) (pos (vs ! ((j + ?L - 1) mod ?L)))
                   (pos (vs ! j)) n)"
    by (rule cyclic_triples_reversed [OF True,
          of "\<lambda>a b c. isConvexPoint a b c n" "\<lambda>k. pos (vs ! k)"])
  also have "\<dots> \<longleftrightarrow> verticesConvex vs n"
    unfolding verticesConvex_loop [OF True, of n] ..
  finally show ?thesis .
qed

section \<open>Properties of the constructor, transform and flip\<close>

text \<open>
  C10, as stated, fails when validation is on: the example triangle with an explicit
  plane whose normal opposes its winding is rejected.
\<close>

theorem Polygon3_explicit_plane_counterexample:
  "Polygon3 (stdExternals True) exampleVertices None (Some \<lparr>normal = Vector3D (- 1) 0 0, w = 0\<rparr>)
     = Inl NotConvex"
  by (simp add: Polygon3_def stdExternals_def checkIfConvex_def verticesConvex_def
      exampleVertices_def Vertex_def isConvexPoint_def dot_def cross_def minus3_def Let_def)

text \<open>
  C10, amended. Without an explicit plane the constructor derives the plane from the
  positions of the first three vertices, and fails (reading \<^verbatim>\<open>.pos\<close> of
  \<^verbatim>\<open>undefined\<close>) for every list of fewer than three. With an explicit plane it never
  reads beyond the list, and it succeeds for every list but one that validation, when it
  is on, finds not convex, which is rejected with \<^verbatim>\<open>NotConvex\<close>; so it succeeds for
  every list when validation is off and for every list of fewer than three vertices in
  either configuration.
\<close>

theorem Polygon3_spec:
  "(3 \<le> length vs \<longrightarrow>
      Polygon3 E vs sh None =
        Polygon3 E vs sh (Some (fromVector3Ds E (pos (vs ! 0)) (pos (vs ! 1)) (pos (vs ! 2))))) \<and>
   (length vs < 3 \<longrightarrow> Polygon3 E vs sh None = Inl TypeError) \<and>
   Polygon3 E vs sh (Some pl) =
     (if CSGDEBUG E \<and> \<not> verticesConvex vs (normal pl) then Inl NotConvex
      else Inr \<lparr>vertices = vs, shared = (case sh of None \<Rightarrow> defaultShared | Some s \<Rightarrow> s),
                plane = pl, cachedBoundingBox = None, cachedBoundingSphere = None\<rparr>) \<and>
   (\<not> CSGDEBUG E \<or> length vs < 3 \<longrightarrow>
      Polygon3 E vs sh (Some pl) =
        Inr \<lparr>vertices = vs, shared = (case sh of None \<Rightarrow> defaultShared | Some s \<Rightarrow> s),
             plane = pl, cachedBoundingBox = None, cachedBoundingSphere = None\<rparr>)"
proof (intro conjI impI)
  assume "3 \<le> length vs"
  then obtain v0 v1 v2 rest where "vs = v0 # v1 # v2 # rest"
    by (cases vs; cases "tl vs"; cases "tl (tl vs)") auto
  then show "Polygon3 E vs sh None =
        Polygon3 E vs sh (Some (fromVector3Ds E (pos (vs ! 0)) (pos (vs ! 1)) (pos (vs ! 2))))"
    by (simp add: Polygon3_def)
next
  assume "length vs < 3"
  then have "vs = [] \<or> (\<exists>a. vs = [a]) \<or> (\<exists>a b. vs = [a, b])"
    by (cases vs; cases "tl vs"; cases "tl (tl vs)") auto
  then show "Polygon3 E vs sh None = Inl TypeError"
    by (auto simp: Polygon3_def)
next
  show "Polygon3 E vs sh (Some pl) =
     (if CSGDEBUG E \<and> \<not> verticesConvex vs (normal pl) then Inl NotConvex
      else Inr \<lparr>vertices = vs, shared = (case sh of None \<Rightarrow> defaultShared | Some s \<Rightarrow> s),
                plane = pl, cachedBoundingBox = None, cachedBoundingSphere = None\<rparr>)"
    by (simp add: Polygon3_def Let_def checkIfConvex_def)
next
  assume "\<not> CSGDEBUG E \<or> length vs < 3"
  then show "Polygon3 E vs sh (Some pl) =
        Inr \<lparr>vertices = vs, shared = (case sh of None \<Rightarrow> defaultShared | Some s \<Rightarrow> s),
             plane = pl, cachedBoundingBox = None, cachedBoundingSphere = None\<rparr>"
    by (auto simp: Polygon3_def Let_def checkIfConvex_def verticesConvex_def)
qed

theorem Polygon3_spec_witness:
  "Polygon3 (stdExternals True) [] None None = Inl TypeError \<and>
   Polygon3 (stdExternals True) [Vertex (Vector3D 0 0 0), Vertex (Vector3D 0 10 0)] None None
     = Inl TypeError \<and>
   Polygon3 (stdExternals True) [Vertex (Vector3D 0 0 0), Vertex (Vector3D 0 10 0)] None
       (Some \<lparr>normal = Vector3D 1 0 0, w = 0\<rparr>)
     = Inr \<lparr>vertices = [Vertex (Vector3D 0 0 0), Vertex (Vector3D 0 10 0)],
            shared = defaultShared, plane = \<lparr>normal = Vector3D 1 0 0, w = 0\<rparr>,
            cachedBoundingBox = None, cachedBoundingSphere = None\<rparr> \<and>
   Polygon3 (stdExternals False) exampleVertices None (Some \<lparr>normal = Vector3D (- 1) 0 0, w = 0\<rparr>)
     = Inr \<lparr>vertices = exampleVertices, shared = defaultShared,
            plane = \<lparr>normal = Vector3D (- 1) 0 0, w = 0\<rparr>,
            cachedBoundingBox = None, cachedBoundingSphere = None\<rparr> \<and>
   Polygon3 (stdExternals True) exampleVertices None None =
     Polygon3 (stdExternals True) exampleVertices None
       (Some (Plane_fromVector3Ds (Vector3D 0 0 0) (Vector3D 0 10 0) (Vector3D 0 10 10)))"
proof -
  have a: "Polygon3 (stdExternals True) [] None None = Inl TypeError"
    using Polygon3_spec [where E = "stdExternals True" and vs = "[]" and sh = None,
        THEN conjunct2, THEN conjunct1]
    by simp
  have b: "Polygon3 (stdExternals True) [Vertex (Vector3D 0 0 0), Vertex (Vector3D 0 10 0)] None None
     = Inl TypeError"
    using Polygon3_spec [where E = "stdExternals True" and sh = None
        and vs = "[Vertex (Vector3D 0 0 0), Vertex (Vector3D 0 10 0)]",
        THEN conjunct2, THEN conjunct1]
    by simp
  have c: "Polygon3 (stdExternals True) [Vertex (Vector3D 0 0 0), Vertex (Vector3D 0 10 0)] None
       (Some \<lparr>normal = Vector3D 1 0 0, w = 0\<rparr>)
     = Inr \<lparr>vertices = [Vertex (Vector3D 0 0 0), Vertex (Vector3D 0 10 0)],
            shared = defaultShared, plane = \<lparr>normal = Vector3D 1 0 0, w = 0\<rparr>,
            cachedBoundingBox = None, cachedBoundingSphere = None\<rparr>"
    using Polygon3_spec [where E = "stdExternals True" and sh = None
        and vs = "[Vertex (Vector3D 0 0 0), Vertex (Vector3D 0 10 0)]"
        and pl = "\<lparr>normal = Vector3D 1 0 0, w = 0\<rparr>",
        THEN conjunct2, THEN conjunct2, THEN conjunct2]
    by simp
  have d: "Polygon3 (stdExternals False) exampleVertices None
       (Some \<lparr>normal = Vector3D (- 1) 0 0, w = 0\<rparr>)
     = Inr \<lparr>vertices = exampleVertices, shared = defaultShared,
            plane = \<lparr>normal = Vector3D (- 1) 0 0, w = 0\<rparr>,
            cachedBoundingBox = None, cachedBoundingSphere = None\<rparr>"
    using Polygon3_spec [where E = "stdExternals False" and sh = None and vs = exampleVertices
        and pl = "\<lparr>normal = Vector3D (- 1) 0 0, w = 0\<rparr>",
        THEN conjunct2, THEN conjunct2, THEN conjunct2]
    by (simp add: stdExternals_def)
  have e: "Polygon3 (stdExternals True) exampleVertices None None =
     Polygon3 (stdExternals True) exampleVertices None
       (Some (Plane_fromVector3Ds (Vector3D 0 0 0) (Vector3D 0 10 0) (Vector3D 0 10 10)))"
    using Polygon3_spec [where E = "stdExternals True" and sh = None and vs = exampleVertices,
        THEN conjunct1]
    by (simp add: exampleVertices_def Vertex_def stdExternals_def)
  show ?thesis using a b c d e by simp
qed




lemma translate_eq: "translate E offset p = transform E (translation E offset) p"
  by (simp add: translate_def)




text \<open>What the constructor checked stays true of a polygon: no operation changes its
  vertices or its plane.\<close>

lemma Polygon3_checked:
  "Polygon3 E vs sh pl = Inr q \<Longrightarrow> CSGDEBUG E \<longrightarrow> checkIfConvex q"
  by (auto simp: Polygon3_def Let_def split: option.splits list.splits if_splits)

lemma setColor_checked:
  "setColor args p = Inr q \<Longrightarrow> checkIfConvex q = checkIfConvex p"
  by (auto simp: setColor_def checkIfConvex_def split: sum.splits)

lemma bounding_checked:
  "checkIfConvex (snd (boundingBox p)) = checkIfConvex p"
  "checkIfConvex (snd (boundingSphere p)) = checkIfConvex p"
  using boundingBox_frame [of p] boundingSphere_frame [of p]
  by (simp_all add: checkIfConvex_def)

text \<open>
  C2. On a polygon that the constructor accepted (convex whenever validation is on),
  \<^verbatim>\<open>flipped\<close> returns a new polygon whose vertices are the receiver's, each flipped,
  in reversed order, whose plane has the normal and the offset negated, and whose shared
  record is the receiver's; flipping that polygon again succeeds and gives back the
  original vertices (so their positions) in the original order and the original plane
  (so its normal).
\<close>

theorem flipped_spec:
  assumes "CSGDEBUG E \<longrightarrow> checkIfConvex p"
  shows "let q = \<lparr>vertices = rev (map Vertex_flipped (vertices p)), shared = shared p,
                   plane = \<lparr>normal = negated (normal (plane p)), w = - w (plane p)\<rparr>,
                   cachedBoundingBox = None, cachedBoundingSphere = None\<rparr>
         in flipped E p = Inr q \<and>
            (\<exists>r. flipped E q = Inr r \<and> map pos (vertices r) = map pos (vertices p) \<and>
                 normal (plane r) = normal (plane p) \<and> vertices r = vertices p \<and>
                 plane r = plane p \<and> shared r = shared p)"
proof -
  define q where "q = \<lparr>vertices = rev (map Vertex_flipped (vertices p)), shared = shared p,
                   plane = \<lparr>normal = negated (normal (plane p)), w = - w (plane p)\<rparr>,
                   cachedBoundingBox = None, cachedBoundingSphere = None\<rparr>"
  define r where "r = \<lparr>vertices = vertices p, shared = shared p, plane = plane p,
                   cachedBoundingBox = None, cachedBoundingSphere = None\<rparr>"
  have c1: "CSGDEBUG E \<longrightarrow> verticesConvex (vertices q) (normal (plane q))"
    using assms by (simp add: q_def checkIfConvex_def verticesConvex_flipped)
  have c2: "CSGDEBUG E \<longrightarrow> verticesConvex (vertices r) (normal (plane r))"
    using assms by (simp add: r_def checkIfConvex_def)
  have vv: "rev (map Vertex_flipped (vertices q)) = vertices p"
    by (simp add: q_def rev_map comp_def Vertex_flipped_twice)
  have pp: "Plane_flipped (plane q) = plane p"
    by (simp add: q_def Plane_flipped_def negated_negated)
  have "flipped E p = Inr q"
    using c1 by (simp add: flipped_def Let_def Polygon3_def checkIfConvex_def q_def Plane_flipped_def)
  moreover have "flipped E q = Inr r"
    using c2 unfolding flipped_def Let_def vv pp
    by (simp add: Polygon3_def checkIfConvex_def Let_def r_def q_def)
  ultimately show ?thesis
    unfolding Let_def q_def [symmetric] by (simp add: r_def)
qed

theorem flipped_spec_witness:
  "checkIfConvex examplePolygon \<and>
   flipped (stdExternals True) examplePolygon =
     Inr \<lparr>vertices = [Vertex (Vector3D 0 10 10), Vertex (Vector3D 0 10 0), Vertex (Vector3D 0 0 0)],
          shared = defaultShared, plane = \<lparr>normal = Vector3D (- 1) 0 0, w = 0\<rparr>,
          cachedBoundingBox = None, cachedBoundingSphere = None\<rparr>"
proof -
  have c: "checkIfConvex examplePolygon"
    by (simp add: checkIfConvex_def examplePolygon_def verticesConvex_def exampleVertices_def
        Vertex_def isConvexPoint_def dot_def cross_def minus3_def Let_def)
  show ?thesis
    using flipped_spec [of "stdExternals True" examplePolygon] c
    by (simp add: Let_def examplePolygon_def exampleVertices_def Vertex_def Vertex_flipped_def
        negated_def)
qed

section \<open>What the operations leave of the receiver\<close>

text \<open>Every polygon an operation returns has valid caches and the receiver's shared
  record.\<close>

lemma flipped_cacheValid: "flipped E p = Inr q \<Longrightarrow> cacheValid q"
  unfolding flipped_def Let_def by (rule Polygon3_cacheValid)

lemma transform_cacheValid: "transform E M p = Inr q \<Longrightarrow> cacheValid q"
  unfolding transform_def Let_def by (rule Polygon3_cacheValid)

lemma flipped_shared: "flipped E p = Inr q \<Longrightarrow> shared q = shared p"
  unfolding flipped_def Let_def by (drule Polygon3_fields(2)) simp

lemma transform_shared: "transform E M p = Inr q \<Longrightarrow> shared q = shared p"
  unfolding transform_def Let_def by (drule Polygon3_fields(2)) simp

text \<open>
  C9. \<^verbatim>\<open>setColor\<close> is an operation on a constructed polygon that is not the memoization
  of a bounding volume, and it replaces the receiver's shared record.
\<close>

theorem setColor_changes_receiver:
  "setColor [Num 1, Num 0, Num 0] examplePolygon =
     Inr (examplePolygon\<lparr>shared := \<lparr>color = Some [Num 1, Num 0, Num 0, Num 1]\<rparr>\<rparr>) \<and>
   shared (examplePolygon\<lparr>shared := \<lparr>color = Some [Num 1, Num 0, Num 0, Num 1]\<rparr>\<rparr>)
     \<noteq> shared examplePolygon"
  by (simp add: setColor_def fromColor_def Shared_def examplePolygon_def defaultShared_def)

end
